theory Spec2Isabelle
  imports Main "HOL-Library.Word" "HOL-Library.Monad_Syntax"
begin

unbundle bit_operations_syntax

section \<open>The operating-system interface used by the servers\<close>

text \<open>
  Signal numbers (Linux). The handlers receive the number as an \<open>int\<close> and compare it
  with these constants.
\<close>

definition SIGINT :: int where "SIGINT = 2"
definition SIGTERM :: int where "SIGTERM = 15"
definition SIGCHLD :: int where "SIGCHLD = 17"

text \<open>
  A call \<open>syslog(priority | LOG_USER, format, args...)\<close> is recorded with its format
  string and its arguments, unformatted (\<open>%m\<close> stays in the format).
\<close>

datatype priority = LOG_ERR | LOG_INFO

datatype log_arg = Arg_int int | Arg_str string

type_synonym log_entry = "priority \<times> string \<times> log_arg list"

text \<open>
  The kernel's table of the children of a process: a child is running, or it has
  terminated and waits to be reaped (a zombie).
\<close>

datatype child_status = Running | Terminated

type_synonym child = "int \<times> child_status"

definition terminated :: "child list \<Rightarrow> child list" where
  "terminated cs = filter (\<lambda>c. snd c = Terminated) cs"

definition running :: "child list \<Rightarrow> child list" where
  "running cs = filter (\<lambda>c. snd c = Running) cs"

text \<open>
  \<open>waitpid(-1, &status, WNOHANG)\<close>: a terminated child is removed from the table and its
  pid returned; with children but none terminated the call returns 0; with no child at
  all it fails with -1 (ECHILD).
\<close>

definition waitpid :: "child list \<Rightarrow> int \<times> child list" where
  "waitpid cs =
     (case find (\<lambda>c. snd c = Terminated) cs of
        Some c \<Rightarrow> (fst c, remove1 c cs)
      | None \<Rightarrow> (if cs = [] then - 1 else 0, cs))"

text \<open>\<open>boost::asio::io_service::fork_event\<close>.\<close>

datatype fork_event = fork_prepare | fork_parent | fork_child

text \<open>
  What \<open>fork()\<close> does in the process that is followed: in the new process it returns 0
  and the process has a new pid and no children; in the calling process it returns the
  pid of the new child; or it fails with -1.
\<close>

datatype fork_result = Fork_child int | Fork_parent int | Fork_failed

section \<open>The class \<open>server\<close>\<close>

text \<open>
  The members of \<open>server\<close> (\<open>io_service_\<close>, \<open>signals_\<close>, \<open>acceptor_\<close>, \<open>socket_\<close>)
  with the state of the process they live in. \<open>signal_wait\<close> and \<open>accept_wait\<close> say
  that an \<open>async_wait\<close> on \<open>signals_\<close>, an \<open>async_accept\<close> on \<open>acceptor_\<close>, is
  outstanding; \<open>main_signal_wait\<close> is the wait on the second signal set of
  \<open>server.cpp\<close>'s \<open>main\<close>.
\<close>

record server =
  pid :: int
  children :: "child list"
  syslog :: "log_entry list"
  stopped :: bool
  fork_events :: "fork_event list"
  signals :: "int list"
  signal_wait :: bool
  acceptor_open :: bool
  accept_wait :: bool
  socket_open :: bool
  main_signal_wait :: bool

definition log :: "priority \<Rightarrow> string \<Rightarrow> log_arg list \<Rightarrow> server \<Rightarrow> server" where
  "log p fmt args s = s\<lparr>syslog := syslog s @ [(p, fmt, args)]\<rparr>"

definition notify_fork :: "fork_event \<Rightarrow> server \<Rightarrow> server" where
  "notify_fork e s = s\<lparr>fork_events := fork_events s @ [e]\<rparr>"

definition fork :: "fork_result \<Rightarrow> server \<Rightarrow> int \<times> server" where
  "fork r s =
     (case r of
        Fork_child p \<Rightarrow> (0, s\<lparr>pid := p, children := []\<rparr>)
      | Fork_parent p \<Rightarrow> (p, s\<lparr>children := children s @ [(p, Running)]\<rparr>)
      | Fork_failed \<Rightarrow> (- 1, s))"

definition acceptor_close :: "server \<Rightarrow> server" where
  "acceptor_close s = s\<lparr>acceptor_open := False\<rparr>"

definition socket_close :: "server \<Rightarrow> server" where
  "socket_close s = s\<lparr>socket_open := False\<rparr>"

definition signals_remove :: "int \<Rightarrow> server \<Rightarrow> server" where
  "signals_remove sig s = s\<lparr>signals := removeAll sig (signals s)\<rparr>"

definition io_service_stop :: "server \<Rightarrow> server" where
  "io_service_stop s = s\<lparr>stopped := True\<rparr>"

text \<open>
  The loop \<open>for (int status = 0; waitpid(-1, &status, WNOHANG) > 0;) {}\<close> of both signal
  handlers.
\<close>

function reap :: "child list \<Rightarrow> child list" where
  "reap cs = (case waitpid cs of (r, cs') \<Rightarrow> if r > 0 then reap cs' else cs')"
  by pat_completeness auto
termination
proof (relation "measure length")
  show "wf (measure length)" by simp
next
  fix cs :: "child list" and r :: int and cs' :: "child list"
  assume w: "(r, cs') = waitpid cs" and pos: "0 < r"
  show "(cs', cs) \<in> measure length"
  proof (cases "find (\<lambda>c. snd c = Terminated) cs")
    case None
    with w pos show ?thesis by (auto simp: waitpid_def split: if_splits)
  next
    case (Some c)
    then have mem: "c \<in> set cs" by (auto simp: find_Some_iff)
    then have "0 < length cs" by (cases cs) auto
    moreover from Some w have "cs' = remove1 c cs" by (simp add: waitpid_def)
    ultimately show ?thesis using mem by (simp add: length_remove1)
  qed
qed

declare reap.simps [simp del]

subsection \<open>\<open>server2.cpp\<close>\<close>

text \<open>
  \<open>wait_for_signal\<close> and \<open>do_accept\<close> post an asynchronous operation whose completion
  handler is the lambda; the lambda bodies are \<open>server2_on_signal\<close> and
  \<open>server2_on_accept\<close>. The error code of the accept is its value, 0 for success.
\<close>

definition server2_wait_for_signal :: "server \<Rightarrow> server" where
  "server2_wait_for_signal s = s\<lparr>signal_wait := True\<rparr>"

definition server2_do_accept :: "server \<Rightarrow> server" where
  "server2_do_accept s = s\<lparr>accept_wait := True\<rparr>"

definition signal_name :: "int \<Rightarrow> string" where
  "signal_name sig =
     (if sig = SIGTERM then ''SIGTERM''
      else if sig = SIGINT then ''SIGINT''
      else if sig = SIGCHLD then ''SIGCHLD''
      else ''?'')"

definition server2_on_signal :: "int \<Rightarrow> server \<Rightarrow> server" where
  "server2_on_signal sig s =
     (if acceptor_open s then
        let s1 = log LOG_INFO ''Caught signal (parent) [pid:%d, signal:%s]''
                   [Arg_int (pid s), Arg_str (signal_name sig)] s;
            s2 = (if sig = SIGCHLD then s1\<lparr>children := reap (children s1)\<rparr> else s1)
        in if sig = SIGTERM \<or> sig = SIGINT
           then log LOG_INFO ''Closed acceptor socket'' [] (acceptor_close s2)
           else server2_wait_for_signal (log LOG_INFO ''Rescheduled signal handlers'' [] s2)
      else log LOG_INFO ''Caught signal (child) [pid:%d]'' [Arg_int (pid s)] s)"

definition server2_on_accept :: "int \<Rightarrow> fork_result \<Rightarrow> server \<Rightarrow> server" where
  "server2_on_accept ec fr s =
     (if \<not> acceptor_open s then s
      else if ec = 0 then
        (case fork fr (notify_fork fork_prepare s) of
           (r, s1) \<Rightarrow>
             if r = 0 then
               let s2 = notify_fork fork_child s1;
                   s3 = acceptor_close s2;
                   s4 = signals_remove SIGCHLD s3;
                   s5 = log LOG_INFO ''Forked child [pid:%d]'' [Arg_int (pid s4)] s4
               in io_service_stop s5
             else
               let s2 = notify_fork fork_parent s1;
                   s3 = socket_close s2
               in server2_do_accept s3)
      else server2_do_accept (log LOG_ERR ''Accept error: %m'' [] s))"

subsection \<open>\<open>server.cpp\<close>\<close>

definition server_do_signal_wait :: "server \<Rightarrow> server" where
  "server_do_signal_wait s = s\<lparr>signal_wait := True\<rparr>"

definition server_do_accept :: "server \<Rightarrow> server" where
  "server_do_accept s = s\<lparr>accept_wait := True\<rparr>"

definition server_on_signal :: "server \<Rightarrow> server" where
  "server_on_signal s =
     (if acceptor_open s then
        let s1 = log LOG_INFO ''Caught signal: %m'' [] s;
            s2 = s1\<lparr>children := reap (children s1)\<rparr>
        in server_do_signal_wait s2
      else s)"

definition server_on_accept :: "int \<Rightarrow> fork_result \<Rightarrow> server \<Rightarrow> server" where
  "server_on_accept ec fr s =
     (if ec = 0 then
        (case fork fr (notify_fork fork_prepare s) of
           (r, s1) \<Rightarrow>
             if r = 0 then
               let s2 = notify_fork fork_child s1;
                   s3 = acceptor_close s2;
                   s4 = log LOG_INFO ''Forked child is done'' [] s3
               in io_service_stop s4
             else
               let s2 = notify_fork fork_parent s1;
                   s3 = socket_close s2
               in server_do_accept s3)
      else server_do_accept (log LOG_ERR ''Accept error: %m'' [] s))"

section \<open>The event loop\<close>

text \<open>
  \<open>io_service::run\<close> delivers completions one at a time, in the order the environment
  produces them: a signal, the completion of the outstanding accept (its error code, and
  what the \<open>fork\<close> of the handler does when the handler forks), and, from the kernel,
  the termination of a child. A handler runs only when its operation is outstanding and
  the service is not stopped; the operation is then no longer outstanding. A signal that
  is not in the signal set is not delivered to its handler. A successful accept leaves
  the connection in \<open>socket_\<close>.
\<close>

datatype event = Signal int | Accept int fork_result | Child_exit int

definition child_exit :: "int \<Rightarrow> child list \<Rightarrow> child list" where
  "child_exit p cs = map (\<lambda>c. if fst c = p then (p, Terminated) else c) cs"

definition accept_complete :: "int \<Rightarrow> server \<Rightarrow> server" where
  "accept_complete ec s =
     s\<lparr>accept_wait := False, socket_open := (socket_open s \<or> ec = 0)\<rparr>"

definition server2_dispatch :: "event \<Rightarrow> server \<Rightarrow> server" where
  "server2_dispatch ev s =
     (case ev of
        Child_exit p \<Rightarrow> s\<lparr>children := child_exit p (children s)\<rparr>
      | Signal sig \<Rightarrow>
          if \<not> stopped s \<and> signal_wait s \<and> sig \<in> set (signals s)
          then server2_on_signal sig (s\<lparr>signal_wait := False\<rparr>)
          else s
      | Accept ec fr \<Rightarrow>
          if \<not> stopped s \<and> accept_wait s
          then server2_on_accept ec fr (accept_complete ec s)
          else s)"

text \<open>
  In \<open>server.cpp\<close>, \<open>main\<close> waits on a second signal set, \<open>{SIGINT, SIGTERM}\<close>, whose
  handler stops the service.
\<close>

definition server_dispatch :: "event \<Rightarrow> server \<Rightarrow> server" where
  "server_dispatch ev s =
     (case ev of
        Child_exit p \<Rightarrow> s\<lparr>children := child_exit p (children s)\<rparr>
      | Signal sig \<Rightarrow>
          if stopped s then s
          else if sig \<in> set (signals s) then
            (if signal_wait s then server_on_signal (s\<lparr>signal_wait := False\<rparr>) else s)
          else if sig = SIGINT \<or> sig = SIGTERM then
            (if main_signal_wait s then io_service_stop (s\<lparr>main_signal_wait := False\<rparr>)
             else s)
          else s
      | Accept ec fr \<Rightarrow>
          if \<not> stopped s \<and> accept_wait s
          then server_on_accept ec fr (accept_complete ec s)
          else s)"

fun server2_run :: "event list \<Rightarrow> server \<Rightarrow> server" where
  "server2_run [] s = s"
| "server2_run (ev # evs) s = server2_run evs (server2_dispatch ev s)"

fun server_run :: "event list \<Rightarrow> server \<Rightarrow> server" where
  "server_run [] s = s"
| "server_run (ev # evs) s = server_run evs (server_dispatch ev s)"

text \<open>
  The constructors, once the acceptor is bound: the members are initialised, then
  \<open>wait_for_signal(); do_accept();\<close> (\<open>do_signal_wait(); do_accept();\<close> in
  \<open>server.cpp\<close>).
\<close>

definition server2_init :: "int \<Rightarrow> log_entry list \<Rightarrow> server" where
  "server2_init p lg =
     server2_do_accept (server2_wait_for_signal
       \<lparr>pid = p, children = [], syslog = lg, stopped = False, fork_events = [],
        signals = [SIGTERM, SIGINT, SIGCHLD], signal_wait = False, acceptor_open = True,
        accept_wait = False, socket_open = False, main_signal_wait = False\<rparr>)"

definition server_init :: "int \<Rightarrow> log_entry list \<Rightarrow> server" where
  "server_init p lg =
     server_do_accept (server_do_signal_wait
       \<lparr>pid = p, children = [], syslog = lg, stopped = False, fork_events = [],
        signals = [SIGCHLD], signal_wait = False, acceptor_open = True,
        accept_wait = False, socket_open = False, main_signal_wait = False\<rparr>)"

section \<open>Start-up: \<open>main\<close>\<close>

text \<open>
  \<open>std::stoi\<close> of the C++ standard library (base 10, through \<open>strtol\<close>): leading white
  space is skipped, an optional sign and the longest run of digits are read, and what
  follows is ignored; without a digit it throws \<open>std::invalid_argument\<close>, with a value
  outside \<open>int\<close> it throws \<open>std::out_of_range\<close>. The acceptor's constructor throws
  \<open>boost::system::system_error\<close> when the socket cannot be opened, bound or listened on.
\<close>

datatype exn = Invalid_argument string | Out_of_range string | System_error string

fun what :: "exn \<Rightarrow> string" where
  "what (Invalid_argument m) = m"
| "what (Out_of_range m) = m"
| "what (System_error m) = m"

definition isspace :: "char \<Rightarrow> bool" where
  "isspace c = (c \<in> set [CHR '' '', CHR 0x09, CHR 0x0A, CHR 0x0B, CHR 0x0C, CHR 0x0D])"

definition isdigit :: "char \<Rightarrow> bool" where
  "isdigit c = (48 \<le> (of_char c :: nat) \<and> (of_char c :: nat) \<le> 57)"

definition decimal :: "string \<Rightarrow> int" where
  "decimal ds = foldl (\<lambda>a c. 10 * a + (of_char c - 48)) 0 ds"

definition stoi :: "string \<Rightarrow> exn + int" where
  "stoi str =
     (let s1 = dropWhile isspace str;
          neg = (s1 \<noteq> [] \<and> hd s1 = CHR ''-'');
          s2 = (if s1 \<noteq> [] \<and> (hd s1 = CHR ''-'' \<or> hd s1 = CHR ''+'') then tl s1 else s1);
          ds = takeWhile isdigit s2
      in if ds = [] then Inl (Invalid_argument ''stoi'')
         else let v = (if neg then - decimal ds else decimal ds)
              in if v < - (2 ^ 31) \<or> 2 ^ 31 - 1 < v then Inl (Out_of_range ''stoi'')
                 else Inr v)"

fun show_nat :: "nat \<Rightarrow> string" where
  "show_nat n =
     (if n < 10 then [char_of (48 + n)] else show_nat (n div 10) @ [char_of (48 + n mod 10)])"

declare show_nat.simps [simp del]

definition show_int :: "int \<Rightarrow> string" where
  "show_int i = (if i < 0 then CHR ''-'' # show_nat (nat (- i)) else show_nat (nat i))"

text \<open>
  What the system calls of \<open>create_pid_file\<close> and of \<open>main\<close> return in the process that
  is followed; \<open>bind_error\<close> gives, for a port, the message of the exception the
  acceptor's constructor throws, if it throws; \<open>events\<close> is what the event loop is
  given while it runs.
\<close>

definition EAGAIN :: int where "EAGAIN = 11"
definition EACCES :: int where "EACCES = 13"

record pid_file_env =
  pf_open :: int
  pf_getfd :: int
  pf_setfd :: int
  pf_setlk :: int
  pf_errno :: int
  pf_ftruncate :: int
  pf_write :: int

record env =
  getpid :: int
  fork1 :: int
  fork2 :: int
  open_null :: int
  open_output :: int
  dup_output :: int
  pid_file :: pid_file_env
  bind_error :: "16 word \<Rightarrow> string option"
  events :: "event list"

text \<open>The result of a run of \<open>main\<close>: the exit status and what was written where.\<close>

record result =
  status :: int
  out :: string
  err :: string
  logged :: "log_entry list"

definition create_pid_file :: "pid_file_env \<Rightarrow> int \<Rightarrow> int \<times> log_entry list" where
  "create_pid_file e p =
     (if pf_open e = - 1 then (- 1, [(LOG_ERR, ''Could not open PID file.'', [])])
      else if pf_getfd e = - 1
        then (- 1, [(LOG_ERR, ''Could not retrieve open flags for PID file.'', [])])
      else if pf_setfd e = - 1
        then (- 1, [(LOG_ERR, ''Could not set FD_CLOEXEC on PID file.'', [])])
      else if pf_setlk e = - 1 \<and> (EAGAIN = pf_errno e \<or> EACCES = pf_errno e)
        then (- 1, [(LOG_ERR, ''Could not acquire write lock for PID file. Another instance ''
                       @ ''could be running already.'', [])])
      else if pf_ftruncate e = - 1
        then (- 1, [(LOG_ERR, ''Could not truncate PID file'' @ [CHR 0x27] @ ''s contents.'', [])])
      else if pf_write e \<noteq> int (length (show_int p @ [CHR 0x0A]))
        then (- 1, [(LOG_ERR, ''Could not write PID to PID file.'', [])])
      else (0, []))"

definition usage :: "string \<Rightarrow> string" where
  "usage argv0 = ''Usage: '' @ argv0 @ '' <port>'' @ [CHR 0x0A]"

text \<open>
  \<open>main\<close> of \<open>server2.cpp\<close>. \<open>argv0\<close> is \<open>_argv[0]\<close> and \<open>args\<close> are the arguments
  after it, so \<open>_argc\<close> is \<open>1 + length args\<close>. An exception thrown in the \<open>try\<close>
  block is caught, reported to the system log and to standard error, and control then
  reaches the end of \<open>main\<close>, which returns 0.
\<close>

definition server2_catch :: "log_entry list \<Rightarrow> exn \<Rightarrow> result" where
  "server2_catch lg x =
     \<lparr>status = 0, out = [], err = ''Exception: '' @ what x,
      logged = lg @ [(LOG_ERR, ''Exception: %s'', [Arg_str (what x)])]\<rparr>"

definition server2_main :: "string \<Rightarrow> string list \<Rightarrow> env \<Rightarrow> result" where
  "server2_main argv0 args e =
     (if 1 + length args \<noteq> 2
        then \<lparr>status = 1, out = usage argv0, err = [], logged = []\<rparr>
      else if fork1 e \<noteq> 0 then
        (if fork1 e > 0 then \<lparr>status = 0, out = [], err = [], logged = []\<rparr>
         else \<lparr>status = 1, out = [], err = [],
               logged = [(LOG_ERR, ''First fork failed: %m'', [])]\<rparr>)
      else if fork2 e \<noteq> 0 then
        (if fork2 e > 0 then \<lparr>status = 0, out = [], err = [], logged = []\<rparr>
         else \<lparr>status = 1, out = [], err = [],
               logged = [(LOG_ERR, ''Second fork failed: %m'', [])]\<rparr>)
      else if open_null e < 0
        then \<lparr>status = 1, out = [], err = [],
              logged = [(LOG_ERR, ''Unable to open /dev/null: %m'', [])]\<rparr>
      else if open_output e < 0
        then \<lparr>status = 1, out = [], err = [],
              logged = [(LOG_ERR, ''Unable to open output file %s: %m'',
                          [Arg_str ''/tmp/asio.daemon.out''])]\<rparr>
      else if dup_output e < 0
        then \<lparr>status = 1, out = [], err = [],
              logged = [(LOG_ERR, ''Unable to dup output descriptor: %m'', [])]\<rparr>
      else
        (case create_pid_file (pid_file e) (getpid e) of
           (r, lg) \<Rightarrow>
             if r \<noteq> 0 then \<lparr>status = 1, out = [], err = [], logged = lg\<rparr>
             else
               (case stoi (args ! 0) of
                  Inl x \<Rightarrow> server2_catch lg x
                | Inr port \<Rightarrow>
                    (case bind_error e (word_of_int port) of
                       Some m \<Rightarrow> server2_catch lg (System_error m)
                     | None \<Rightarrow>
                         let s0 = server2_init (getpid e) lg;
                             s1 = log LOG_INFO ''Daemon started [pid:%d]'' [Arg_int (pid s0)] s0;
                             s2 = server2_run (events e) s1;
                             s3 = log LOG_INFO ''Daemon stopped [pid:%d]'' [Arg_int (pid s2)] s2
                         in \<lparr>status = 0, out = [], err = [], logged = syslog s3\<rparr>))))"

text \<open>
  \<open>main\<close> of \<open>server.cpp\<close>: the server is constructed first, then the process becomes a
  daemon. Its \<open>catch\<close> block writes the line to \<open>std::cerr\<close> with \<open>std::endl\<close>.
\<close>

definition server_catch :: "log_entry list \<Rightarrow> exn \<Rightarrow> result" where
  "server_catch lg x =
     \<lparr>status = 0, out = [], err = ''Exception: '' @ what x @ [CHR 0x0A],
      logged = lg @ [(LOG_ERR, ''Exception: %s'', [Arg_str (what x)])]\<rparr>"

definition server_main :: "string \<Rightarrow> string list \<Rightarrow> env \<Rightarrow> result" where
  "server_main argv0 args e =
     (if 1 + length args \<noteq> 2
        then \<lparr>status = 1, out = usage argv0, err = [], logged = []\<rparr>
      else
        (case stoi (args ! 0) of
           Inl x \<Rightarrow> server_catch [] x
         | Inr port \<Rightarrow>
             (case bind_error e (word_of_int port) of
                Some m \<Rightarrow> server_catch [] (System_error m)
              | None \<Rightarrow>
                  let s0 = (server_init (getpid e) [])\<lparr>main_signal_wait := True\<rparr>;
                      s1 = notify_fork fork_prepare s0
                  in if fork1 e \<noteq> 0 then
                       (if fork1 e > 0 then \<lparr>status = 0, out = [], err = [], logged = []\<rparr>
                        else \<lparr>status = 1, out = [], err = [],
                              logged = [(LOG_ERR, ''First fork failed: %m'', [])]\<rparr>)
                     else if fork2 e \<noteq> 0 then
                       (if fork2 e > 0 then \<lparr>status = 0, out = [], err = [], logged = []\<rparr>
                        else \<lparr>status = 1, out = [], err = [],
                              logged = [(LOG_ERR, ''Second fork failed: %m'', [])]\<rparr>)
                     else if open_null e < 0
                       then \<lparr>status = 1, out = [], err = [],
                             logged = [(LOG_ERR, ''Unable to open /dev/null: %m'', [])]\<rparr>
                     else if open_output e < 0
                       then \<lparr>status = 1, out = [], err = [],
                             logged = [(LOG_ERR, ''Unable to open output file %s: %m'',
                                         [Arg_str ''/tmp/asio.daemon.out''])]\<rparr>
                     else if dup_output e < 0
                       then \<lparr>status = 1, out = [], err = [],
                             logged = [(LOG_ERR, ''Unable to dup output descriptor: %m'', [])]\<rparr>
                     else
                       let s2 = notify_fork fork_child s1;
                           s3 = log LOG_INFO ''Daemon started'' [] s2;
                           s4 = server_run (events e) s3;
                           s5 = log LOG_INFO ''Daemon stopped'' [] s4
                       in \<lparr>status = 0, out = [], err = [], logged = syslog s5\<rparr>)))"

text \<open>An environment in which every call of the start-up succeeds and nothing arrives.\<close>

definition env_ok :: env where
  "env_ok =
     \<lparr>getpid = 100, fork1 = 0, fork2 = 0, open_null = 0, open_output = 1, dup_output = 2,
      pid_file = \<lparr>pf_open = 3, pf_getfd = 0, pf_setfd = 0, pf_setlk = 0, pf_errno = 0,
                  pf_ftruncate = 0, pf_write = 4\<rparr>,
      bind_error = (\<lambda>_. None), events = []\<rparr>"

text \<open>
  Two servers in the parent role, one of each program, each with three workers of which
  two have terminated and are not yet reaped.
\<close>

definition server2_example :: server where
  "server2_example =
     (server2_init 100 [])\<lparr>children := [(101, Terminated), (102, Running), (103, Terminated)]\<rparr>"

definition server_example :: server where
  "server_example =
     (server_init 100 [])\<lparr>children := [(101, Terminated), (102, Running), (103, Terminated)],
                           main_signal_wait := True\<rparr>"

section \<open>The wire format\<close>

subsection \<open>The schema \<open>message.fbs\<close>\<close>

text \<open>
  The enumeration \<open>api_no : uint16\<close> and the tables \<open>user_info\<close> and \<open>message\<close>.
  Strings are byte strings; \<open>minimum_protocol_version\<close> is an \<open>int16\<close>, kept as the
  16-bit word that carries it.
\<close>

type_synonym byte = "8 word"

datatype api_no =
    data_object_open | data_object_close | data_object_read | data_object_write
  | data_object_seek | data_object_truncate | data_object_unlink

fun api_no_value :: "api_no \<Rightarrow> 16 word" where
  "api_no_value data_object_open = 0"
| "api_no_value data_object_close = 1"
| "api_no_value data_object_read = 2"
| "api_no_value data_object_write = 3"
| "api_no_value data_object_seek = 4"
| "api_no_value data_object_truncate = 5"
| "api_no_value data_object_unlink = 6"

record user_info =
  name :: string

record message =
  minimum_protocol_version :: "16 word"
  api_number :: api_no
  user :: user_info
  proxy_user :: user_info
  payload :: string

subsection \<open>Building a message\<close>

text \<open>
  Modelled from the spec: \<open>message_generated.h\<close>, generated from the schema, and the
  FlatBuffers builder it calls are not among the sources. Section 4.4 asks for the
  serialization of the chosen format, to be preserved by any binary-compatible
  implementation, with nested objects written before the structure that refers to them;
  the definitions below are that format's builder, named as in \<open>flatbuffer_builder.h\<close>.

  The buffer grows downwards: \<open>buf\<close> holds the bytes written so far, lowest address
  first, and \<open>buf_size\<close> their number. An offset counts back from the end of the
  buffer, so that the byte at offset \<open>o\<close> is \<open>buf ! (buf_size - o)\<close>. \<open>field_locs\<close>
  and \<open>vtables\<close> are the builder's scratch area: the fields of the table under
  construction (offset and vtable slot) and the offsets of the vtables written so far.
  A scalar is passed as its little-endian bytes, whose number is its size.
\<close>

definition le16 :: "16 word \<Rightarrow> byte list" where
  "le16 w = [ucast w, ucast (drop_bit 8 w)]"

definition le32 :: "32 word \<Rightarrow> byte list" where
  "le32 w = [ucast w, ucast (drop_bit 8 w), ucast (drop_bit 16 w), ucast (drop_bit 24 w)]"

record FlatBufferBuilder =
  buf :: "byte list"
  buf_size :: nat
  minalign :: nat
  field_locs :: "(nat \<times> nat) list"
  max_voffset :: nat
  vtables :: "nat list"

definition new_builder :: FlatBufferBuilder where
  "new_builder =
     \<lparr>buf = [], buf_size = 0, minalign = 1, field_locs = [], max_voffset = 0, vtables = []\<rparr>"

definition GetSize :: "FlatBufferBuilder \<Rightarrow> nat" where
  "GetSize b = buf_size b"

text \<open>\<open>PaddingBytes\<close> is \<open>(~n + 1) & (scalar_size - 1)\<close>, for a power of two.\<close>

definition PaddingBytes :: "nat \<Rightarrow> nat \<Rightarrow> nat" where
  "PaddingBytes n scalar_size = (scalar_size - n mod scalar_size) mod scalar_size"

definition fill :: "nat \<Rightarrow> FlatBufferBuilder \<Rightarrow> FlatBufferBuilder" where
  "fill n b = b\<lparr>buf := replicate n 0 @ buf b, buf_size := buf_size b + n\<rparr>"

definition push :: "byte list \<Rightarrow> FlatBufferBuilder \<Rightarrow> FlatBufferBuilder" where
  "push bs b = b\<lparr>buf := bs @ buf b, buf_size := buf_size b + length bs\<rparr>"

definition pop :: "nat \<Rightarrow> FlatBufferBuilder \<Rightarrow> FlatBufferBuilder" where
  "pop n b = b\<lparr>buf := drop n (buf b), buf_size := buf_size b - n\<rparr>"

definition TrackMinAlign :: "nat \<Rightarrow> FlatBufferBuilder \<Rightarrow> FlatBufferBuilder" where
  "TrackMinAlign elem_size b = (if elem_size > minalign b then b\<lparr>minalign := elem_size\<rparr> else b)"

definition Align :: "nat \<Rightarrow> FlatBufferBuilder \<Rightarrow> FlatBufferBuilder" where
  "Align elem_size b =
     (let b1 = TrackMinAlign elem_size b in fill (PaddingBytes (GetSize b1) elem_size) b1)"

definition PreAlign :: "nat \<Rightarrow> nat \<Rightarrow> FlatBufferBuilder \<Rightarrow> FlatBufferBuilder" where
  "PreAlign len alignment b =
     (if len = 0 then b
      else let b1 = TrackMinAlign alignment b
           in fill (PaddingBytes (GetSize b1 + len) alignment) b1)"

definition PushElement :: "byte list \<Rightarrow> FlatBufferBuilder \<Rightarrow> nat \<times> FlatBufferBuilder" where
  "PushElement element b =
     (let b1 = push element (Align (length element) b) in (GetSize b1, b1))"

definition CreateString :: "string \<Rightarrow> FlatBufferBuilder \<Rightarrow> nat \<times> FlatBufferBuilder" where
  "CreateString str b =
     (let b1 = PreAlign (length str + 1) 4 b;
          b2 = fill 1 b1;
          b3 = push (map of_char str) b2;
          (_, b4) = PushElement (le32 (of_nat (length str))) b3
      in (GetSize b4, b4))"

definition StartTable :: "FlatBufferBuilder \<Rightarrow> nat \<times> FlatBufferBuilder" where
  "StartTable b = (GetSize b, b)"

definition TrackField :: "nat \<Rightarrow> nat \<Rightarrow> FlatBufferBuilder \<Rightarrow> FlatBufferBuilder" where
  "TrackField field off b =
     b\<lparr>field_locs := field_locs b @ [(off, field)],
       max_voffset := (if field > max_voffset b then field else max_voffset b)\<rparr>"

definition AddElement ::
  "nat \<Rightarrow> byte list \<Rightarrow> byte list \<Rightarrow> FlatBufferBuilder \<Rightarrow> FlatBufferBuilder" where
  "AddElement field e def b =
     (if e = def then b
      else case PushElement e b of (off, b1) \<Rightarrow> TrackField field off b1)"

definition ReferTo :: "nat \<Rightarrow> FlatBufferBuilder \<Rightarrow> nat \<times> FlatBufferBuilder" where
  "ReferTo off b = (let b1 = Align 4 b in (GetSize b1 - off + 4, b1))"

definition AddOffset :: "nat \<Rightarrow> nat \<Rightarrow> FlatBufferBuilder \<Rightarrow> FlatBufferBuilder" where
  "AddOffset field off b =
     (if off = 0 then b
      else case ReferTo off b of (r, b1) \<Rightarrow> AddElement field (le32 (of_nat r)) (le32 0) b1)"

text \<open>
  \<open>EndTable\<close> writes the table's offset to its vtable (filled in last), then the vtable:
  its size, the size of the table, and for each slot the distance of the field from the
  start of the table, 0 for a field that was not added. A vtable equal to one written
  before is dropped and the old one is used.
\<close>

definition write_at :: "nat \<Rightarrow> byte list \<Rightarrow> byte list \<Rightarrow> byte list" where
  "write_at i bs xs = take i xs @ bs @ drop (i + length bs) xs"

definition WriteScalar :: "nat \<Rightarrow> byte list \<Rightarrow> FlatBufferBuilder \<Rightarrow> FlatBufferBuilder" where
  "WriteScalar i bs b = b\<lparr>buf := write_at i bs (buf b)\<rparr>"

definition data_at :: "nat \<Rightarrow> FlatBufferBuilder \<Rightarrow> nat" where
  "data_at off b = GetSize b - off"

definition same_vtable :: "FlatBufferBuilder \<Rightarrow> nat \<Rightarrow> nat \<Rightarrow> bool" where
  "same_vtable b vt1_size vt_offset =
     (let vt2 = drop (data_at vt_offset b) (buf b)
      in take 2 vt2 = le16 (of_nat vt1_size) \<and> take vt1_size vt2 = take vt1_size (buf b))"

definition EndTable :: "nat \<Rightarrow> FlatBufferBuilder \<Rightarrow> nat \<times> FlatBufferBuilder" where
  "EndTable start b =
     (case PushElement (le32 0) b of
        (vtableoffsetloc, b1) \<Rightarrow>
          let mv = max (max_voffset b1 + 2) 4;
              b2 = fill mv (b1\<lparr>max_voffset := mv\<rparr>);
              table_object_size = vtableoffsetloc - start;
              b3 = WriteScalar 2 (le16 (of_nat table_object_size)) b2;
              b4 = WriteScalar 0 (le16 (of_nat mv)) b3;
              b5 = foldl (\<lambda>b' (off, field).
                            WriteScalar field (le16 (of_nat (vtableoffsetloc - off))) b')
                     b4 (field_locs b4);
              b6 = b5\<lparr>field_locs := [], max_voffset := 0\<rparr>;
              (vt_use, b7) =
                 (case find (same_vtable b6 mv) (vtables b6) of
                    Some vt \<Rightarrow> (vt, pop (GetSize b6 - vtableoffsetloc) b6)
                  | None \<Rightarrow> (GetSize b6, b6));
              b8 = (if vt_use = GetSize b7 then b7\<lparr>vtables := vtables b7 @ [vt_use]\<rparr>
                    else b7);
              b9 = WriteScalar (data_at vtableoffsetloc b8)
                     (le32 (of_int (int vt_use - int vtableoffsetloc))) b8
          in (vtableoffsetloc, b9))"

definition Finish :: "nat \<Rightarrow> FlatBufferBuilder \<Rightarrow> FlatBufferBuilder" where
  "Finish root b =
     (let b1 = b\<lparr>vtables := []\<rparr>;
          b2 = PreAlign 4 (minalign b1) b1;
          (r, b3) = ReferTo root b2;
          (_, b4) = PushElement (le32 (of_nat r)) b3
      in b4)"

text \<open>
  The builders that \<open>flatc\<close> generates for the two tables. The vtable slots follow the
  order of the fields in the schema: 4 for \<open>name\<close>; 4, 6, 8, 10 and 12 for the fields
  of \<open>message\<close>. A scalar equal to its default, 0, is not written.
\<close>

definition add_name :: "nat \<Rightarrow> FlatBufferBuilder \<Rightarrow> FlatBufferBuilder" where
  "add_name nm = AddOffset 4 nm"

definition add_minimum_protocol_version ::
  "16 word \<Rightarrow> FlatBufferBuilder \<Rightarrow> FlatBufferBuilder" where
  "add_minimum_protocol_version v = AddElement 4 (le16 v) (le16 0)"

definition add_api_number :: "api_no \<Rightarrow> FlatBufferBuilder \<Rightarrow> FlatBufferBuilder" where
  "add_api_number v = AddElement 6 (le16 (api_no_value v)) (le16 0)"

definition add_user :: "nat \<Rightarrow> FlatBufferBuilder \<Rightarrow> FlatBufferBuilder" where
  "add_user u = AddOffset 8 u"

definition add_proxy_user :: "nat \<Rightarrow> FlatBufferBuilder \<Rightarrow> FlatBufferBuilder" where
  "add_proxy_user u = AddOffset 10 u"

definition add_payload :: "nat \<Rightarrow> FlatBufferBuilder \<Rightarrow> FlatBufferBuilder" where
  "add_payload p = AddOffset 12 p"

subsection \<open>\<open>client.cpp\<close>\<close>

text \<open>
  The second \<open>main\<close> of \<open>client.cpp\<close>: the three strings are created first, then the
  two \<open>user_info\<close> tables, then the message, with the payload taken from \<open>_argv[2]\<close>.
  The size of the buffer is then written as a \<open>little_int32_buf_t\<close>, followed by the
  buffer.
\<close>

definition client_builder :: "string \<Rightarrow> FlatBufferBuilder" where
  "client_builder arg =
     (let (username, b1) = CreateString ''kory'' new_builder;
          (proxy_username, b2) = CreateString ''rods'' b1;
          (payload, b3) = CreateString arg b2;
          (user_start, b4) = StartTable b3;
          (user, b5) = EndTable user_start (add_name username b4);
          (proxy_user_start, b6) = StartTable b5;
          (proxy_user, b7) = EndTable proxy_user_start (add_name proxy_username b6);
          (message_start, b8) = StartTable b7;
          b9 = add_minimum_protocol_version 430 b8;
          b10 = add_user user b9;
          b11 = add_proxy_user proxy_user b10;
          b12 = add_api_number data_object_open b11;
          b13 = add_payload payload b12;
          (msg, b14) = EndTable message_start b13
      in Finish msg b14)"

definition client_write :: "string \<Rightarrow> byte list" where
  "client_write arg =
     (let builder = client_builder arg
      in le32 (of_nat (GetSize builder)) @ buf builder)"


subsection \<open>Decoding\<close>

text \<open>
  Modelled from the spec: no program of the repository reads a message. \<open>decode\<close> is
  section 4.4's: it reads the four bytes of the length, and fails with \<open>FramingError\<close>
  when the stream ends before them, when the length exceeds the maximum (16 MiB) or when
  the stream ends before that many bytes of body; the body is then read as the
  FlatBuffers accessors of the schema read it, every access checked against the end of
  the body, and a body that cannot be read, that has no \<open>user\<close> or \<open>proxy_user\<close>, or
  whose \<open>api_number\<close> is not one of the seven values, fails with \<open>SchemaError\<close>. A
  scalar that is absent has its default, 0, since that is how the format stores a 0; an
  absent string is empty.
\<close>

datatype decode_error = FramingError | SchemaError

definition max_body_length :: nat where
  "max_body_length = 16 * 1024 * 1024"

definition rd16 :: "byte list \<Rightarrow> nat \<Rightarrow> 16 word option" where
  "rd16 bs i =
     (if i + 2 \<le> length bs then Some (ucast (bs ! i) OR push_bit 8 (ucast (bs ! (i + 1))))
      else None)"

definition rd32 :: "byte list \<Rightarrow> nat \<Rightarrow> 32 word option" where
  "rd32 bs i =
     (if i + 4 \<le> length bs
      then Some (ucast (bs ! i) OR push_bit 8 (ucast (bs ! (i + 1))) OR
                 push_bit 16 (ucast (bs ! (i + 2))) OR push_bit 24 (ucast (bs ! (i + 3))))
      else None)"

definition api_no_of :: "16 word \<Rightarrow> api_no option" where
  "api_no_of w =
     (if w = 0 then Some data_object_open
      else if w = 1 then Some data_object_close
      else if w = 2 then Some data_object_read
      else if w = 3 then Some data_object_write
      else if w = 4 then Some data_object_seek
      else if w = 5 then Some data_object_truncate
      else if w = 6 then Some data_object_unlink
      else None)"

definition field_offset :: "byte list \<Rightarrow> nat \<Rightarrow> nat \<Rightarrow> nat option" where
  "field_offset bs table field =
     do {
       soff \<leftarrow> rd32 bs table;
       let vt = int table - sint soff;
       if vt < 0 then None
       else do {
         vtsize \<leftarrow> rd16 bs (nat vt);
         if field < unat vtsize then map_option unat (rd16 bs (nat vt + field)) else Some 0
       }
     }"

definition get_scalar16 ::
  "byte list \<Rightarrow> nat \<Rightarrow> nat \<Rightarrow> 16 word \<Rightarrow> 16 word option" where
  "get_scalar16 bs table field dflt =
     do {
       off \<leftarrow> field_offset bs table field;
       if off = 0 then Some dflt else rd16 bs (table + off)
     }"

definition get_pointer :: "byte list \<Rightarrow> nat \<Rightarrow> nat \<Rightarrow> nat option option" where
  "get_pointer bs table field =
     do {
       off \<leftarrow> field_offset bs table field;
       if off = 0 then Some None
       else do { r \<leftarrow> rd32 bs (table + off); Some (Some (table + off + unat r)) }
     }"

definition get_string :: "byte list \<Rightarrow> nat \<Rightarrow> string option" where
  "get_string bs p =
     do {
       len \<leftarrow> rd32 bs p;
       if p + 4 + unat len \<le> length bs
       then Some (map (\<lambda>b. char_of (unat b)) (take (unat len) (drop (p + 4) bs)))
       else None
     }"

definition get_optional_string :: "byte list \<Rightarrow> nat \<Rightarrow> nat \<Rightarrow> string option" where
  "get_optional_string bs table field =
     do {
       p \<leftarrow> get_pointer bs table field;
       case p of None \<Rightarrow> Some [] | Some q \<Rightarrow> get_string bs q
     }"

definition parse_user_info :: "byte list \<Rightarrow> nat \<Rightarrow> nat \<Rightarrow> user_info option" where
  "parse_user_info bs table field =
     do {
       p \<leftarrow> get_pointer bs table field;
       case p of
         None \<Rightarrow> None
       | Some u \<Rightarrow> do { n \<leftarrow> get_optional_string bs u 4; Some \<lparr>name = n\<rparr> }
     }"

definition parse_message :: "byte list \<Rightarrow> message option" where
  "parse_message bs =
     do {
       root \<leftarrow> rd32 bs 0;
       let table = unat root;
       v \<leftarrow> get_scalar16 bs table 4 0;
       a \<leftarrow> get_scalar16 bs table 6 0;
       api \<leftarrow> api_no_of a;
       u \<leftarrow> parse_user_info bs table 8;
       pu \<leftarrow> parse_user_info bs table 10;
       pl \<leftarrow> get_optional_string bs table 12;
       Some \<lparr>minimum_protocol_version = v, api_number = api, user = u, proxy_user = pu,
             payload = pl\<rparr>
     }"

definition decode :: "byte list \<Rightarrow> decode_error + message" where
  "decode stream =
     (case rd32 stream 0 of
        None \<Rightarrow> Inl FramingError
      | Some len \<Rightarrow>
          if unat len > max_body_length then Inl FramingError
          else if length stream < 4 + unat len then Inl FramingError
          else (case parse_message (take (unat len) (drop 4 stream)) of
                  None \<Rightarrow> Inl SchemaError
                | Some m \<Rightarrow> Inr m))"

text \<open>The body of the message that the client sends for the payload \<open>/tmp/data.obj\<close>.\<close>

definition example_body :: "byte list" where
  "example_body =
     [20, 0, 0, 0, 0, 0, 14, 0, 18, 0, 16, 0, 0, 0, 12, 0, 8, 0, 4, 0, 14, 0, 0, 0, 44, 0, 0, 0,
      16, 0, 0, 0, 28, 0, 0, 0, 174, 1, 6, 0, 10, 0, 4, 0, 6, 0, 0, 0, 40, 0, 0, 0, 0, 0, 6, 0,
      8, 0, 4, 0, 6, 0, 0, 0, 36, 0, 0, 0, 13, 0, 0, 0, 47, 116, 109, 112, 47, 100, 97, 116, 97,
      46, 111, 98, 106, 0, 0, 0, 4, 0, 0, 0, 114, 111, 100, 115, 0, 0, 0, 0, 4, 0, 0, 0, 107,
      111, 114, 121, 0, 0, 0, 0]"

section \<open>Properties of the signal and accept handlers\<close>

subsection \<open>Reaping\<close>

lemma find_None_running: "find (\<lambda>c. snd c = Terminated) cs = None \<Longrightarrow> running cs = cs"
  by (induction cs) (auto simp: running_def intro: child_status.exhaust split: if_splits)

lemma running_remove1_terminated:
  "snd c = Terminated \<Longrightarrow> running (remove1 c cs) = running cs"
  by (induction cs) (auto simp: running_def)

lemma terminated_running: "terminated (running cs) = []"
  by (induction cs) (auto simp: terminated_def running_def)

lemma running_running: "running (running cs) = running cs"
  by (simp add: running_def)

text \<open>
  With positive pids, as the kernel gives them, the loop ends exactly when no terminated
  child is left, and it removes nothing else.
\<close>

lemma reap_running:
  "\<forall>c\<in>set cs. 0 < fst c \<Longrightarrow> reap cs = running cs"
proof (induction cs rule: reap.induct)
  case (1 cs)
  show ?case
  proof (cases "find (\<lambda>c. snd c = Terminated) cs")
    case None
    then have "waitpid cs = (if cs = [] then - 1 else 0, cs)" by (simp add: waitpid_def)
    then have "reap cs = cs" by (subst reap.simps) simp
    with None show ?thesis by (simp add: find_None_running)
  next
    case (Some c)
    then have c: "c \<in> set cs" "snd c = Terminated" by (auto simp: find_Some_iff)
    from Some have w: "waitpid cs = (fst c, remove1 c cs)" by (simp add: waitpid_def)
    from c "1.prems" have pos: "0 < fst c" by blast
    have "\<forall>d\<in>set (remove1 c cs). 0 < fst d"
      using "1.prems" by (auto dest: notin_set_remove1)
    then have "reap (remove1 c cs) = running (remove1 c cs)"
      by (rule "1.IH" [OF w [symmetric] pos])
    moreover have "reap cs = reap (remove1 c cs)"
      using w pos by (subst reap.simps) simp
    ultimately show ?thesis using c by (simp add: running_remove1_terminated)
  qed
qed

lemma server2_on_signal_chld:
  assumes "acceptor_open s"
  shows "server2_on_signal SIGCHLD s =
     s\<lparr>children := reap (children s),
       syslog := syslog s @
         [(LOG_INFO, ''Caught signal (parent) [pid:%d, signal:%s]'',
             [Arg_int (pid s), Arg_str ''SIGCHLD'']),
          (LOG_INFO, ''Rescheduled signal handlers'', [])],
       signal_wait := True\<rparr>"
  using assms
  by (simp add: server2_on_signal_def log_def server2_wait_for_signal_def signal_name_def
      SIGCHLD_def SIGTERM_def SIGINT_def Let_def)

text \<open>
  C2. When the child-exit signal is handled in the parent role (the acceptor is open),
  the handler leaves no terminated child unreaped, however many had terminated before
  the delivery, leaves the running children alone, and waits for the next signal
  again. This holds for the handler of \<open>server2.cpp\<close> (state \<open>s\<close>) and for that of
  \<open>server.cpp\<close> (state \<open>t\<close>).
\<close>

theorem sigchld_reaps_all:
  assumes "acceptor_open s" and "\<forall>c\<in>set (children s). 0 < fst c"
    and "acceptor_open t" and "\<forall>c\<in>set (children t). 0 < fst c"
  shows "terminated (children (server2_on_signal SIGCHLD s)) = [] \<and>
         running (children (server2_on_signal SIGCHLD s)) = running (children s) \<and>
         signal_wait (server2_on_signal SIGCHLD s) \<and>
         terminated (children (server_on_signal t)) = [] \<and>
         running (children (server_on_signal t)) = running (children t) \<and>
         signal_wait (server_on_signal t)"
  using assms
  by (simp add: server2_on_signal_chld server_on_signal_def server_do_signal_wait_def
      log_def Let_def reap_running terminated_running running_running)

theorem sigchld_reaps_all_witness:
  "acceptor_open server2_example \<and>
   terminated (children server2_example) = [(101, Terminated), (103, Terminated)] \<and>
   terminated (children (server2_on_signal SIGCHLD server2_example)) = [] \<and>
   running (children (server2_on_signal SIGCHLD server2_example)) = [(102, Running)] \<and>
   signal_wait (server2_on_signal SIGCHLD server2_example) \<and>
   acceptor_open server_example \<and>
   terminated (children (server_on_signal server_example)) = [] \<and>
   running (children (server_on_signal server_example)) = [(102, Running)] \<and>
   signal_wait (server_on_signal server_example)"
  using sigchld_reaps_all [of server2_example server_example]
  by (simp add: server2_example_def server_example_def server2_init_def server_init_def
      server2_do_accept_def server2_wait_for_signal_def server_do_accept_def
      server_do_signal_wait_def running_def terminated_def)

subsection \<open>A closed acceptor stays closed\<close>

lemma map_fst_child_exit: "map fst (child_exit p cs) = map fst cs"
  by (induction cs) (auto simp: child_exit_def)

lemma server2_on_signal_closed:
  "\<not> acceptor_open s \<Longrightarrow>
   server2_on_signal sig s = log LOG_INFO ''Caught signal (child) [pid:%d]'' [Arg_int (pid s)] s"
  by (simp add: server2_on_signal_def)

lemma server2_on_accept_closed: "\<not> acceptor_open s \<Longrightarrow> server2_on_accept ec fr s = s"
  by (simp add: server2_on_accept_def)

lemma server2_dispatch_closed:
  assumes "\<not> acceptor_open s"
  shows "\<not> acceptor_open (server2_dispatch ev s)"
    and "fork_events (server2_dispatch ev s) = fork_events s"
    and "map fst (children (server2_dispatch ev s)) = map fst (children s)"
    and "accept_wait (server2_dispatch ev s) \<longrightarrow> accept_wait s"
    and "signal_wait (server2_dispatch ev s) \<longrightarrow> signal_wait s"
    and "signals (server2_dispatch ev s) = signals s"
  using assms
  by (cases ev; simp add: server2_dispatch_def server2_on_signal_closed
      server2_on_accept_closed accept_complete_def log_def map_fst_child_exit)+

lemma server2_run_closed:
  assumes "\<not> acceptor_open s"
  shows "\<not> acceptor_open (server2_run evs s) \<and>
         fork_events (server2_run evs s) = fork_events s \<and>
         map fst (children (server2_run evs s)) = map fst (children s) \<and>
         (accept_wait (server2_run evs s) \<longrightarrow> accept_wait s) \<and>
         (signal_wait (server2_run evs s) \<longrightarrow> signal_wait s) \<and>
         signals (server2_run evs s) = signals s"
  using assms
proof (induction evs arbitrary: s)
  case Nil
  then show ?case by simp
next
  case (Cons ev evs)
  from Cons.prems have c: "\<not> acceptor_open (server2_dispatch ev s)"
    by (rule server2_dispatch_closed)
  from Cons.IH [OF c] server2_dispatch_closed [OF Cons.prems, of ev]
  show ?case by simp
qed

text \<open>Only the exit of a child changes the table of children of such a process.\<close>

lemma server2_dispatch_closed_children:
  assumes "\<not> acceptor_open s" and "\<forall>p. ev \<noteq> Child_exit p"
  shows "children (server2_dispatch ev s) = children s"
  using assms
  by (cases ev; simp add: server2_dispatch_def server2_on_signal_closed
      server2_on_accept_closed accept_complete_def log_def)

lemma server2_run_closed_children:
  assumes "\<not> acceptor_open s" and "\<forall>p. Child_exit p \<notin> set evs"
  shows "children (server2_run evs s) = children s"
  using assms
proof (induction evs arbitrary: s)
  case Nil
  then show ?case by simp
next
  case (Cons ev evs)
  from Cons.prems have ev: "\<forall>p. ev \<noteq> Child_exit p" and evs: "\<forall>p. Child_exit p \<notin> set evs"
    by auto
  from Cons.prems(1) have c: "\<not> acceptor_open (server2_dispatch ev s)"
    by (rule server2_dispatch_closed)
  from Cons.IH [OF c evs] server2_dispatch_closed_children [OF Cons.prems(1) ev]
  show ?case by simp
qed

text \<open>
  \<open>server.cpp\<close>'s accept handler does not look at the acceptor, so there the invariant
  also needs that no accept is outstanding.
\<close>

lemma server_dispatch_idle:
  assumes "\<not> acceptor_open s" and "\<not> accept_wait s"
  shows "\<not> acceptor_open (server_dispatch ev s)"
    and "\<not> accept_wait (server_dispatch ev s)"
    and "fork_events (server_dispatch ev s) = fork_events s"
    and "map fst (children (server_dispatch ev s)) = map fst (children s)"
    and "signals (server_dispatch ev s) = signals s"
    and "syslog (server_dispatch ev s) = syslog s"
  using assms
  by (cases ev; simp add: server_dispatch_def server_on_signal_def io_service_stop_def
      map_fst_child_exit)+

lemma server_run_idle:
  assumes "\<not> acceptor_open s" and "\<not> accept_wait s"
  shows "\<not> acceptor_open (server_run evs s) \<and>
         \<not> accept_wait (server_run evs s) \<and>
         fork_events (server_run evs s) = fork_events s \<and>
         map fst (children (server_run evs s)) = map fst (children s) \<and>
         signals (server_run evs s) = signals s \<and>
         syslog (server_run evs s) = syslog s"
  using assms
proof (induction evs arbitrary: s)
  case Nil
  then show ?case by simp
next
  case (Cons ev evs)
  note d = server_dispatch_idle [OF Cons.prems, of ev]
  from Cons.IH [OF d(1) d(2)] d show ?case by simp
qed

lemma stopped_server2_dispatch:
  "stopped s \<Longrightarrow> server2_dispatch (Signal sig) s = s \<and> server2_dispatch (Accept ec fr) s = s"
  by (simp add: server2_dispatch_def)

lemma stopped_server_dispatch:
  "stopped s \<Longrightarrow> server_dispatch (Signal sig) s = s \<and> server_dispatch (Accept ec fr) s = s"
  by (simp add: server_dispatch_def)

subsection \<open>The two sides of a fork\<close>

lemma server2_worker:
  assumes "acceptor_open s"
  shows "server2_on_accept 0 (Fork_child p) s =
     s\<lparr>pid := p, children := [],
       fork_events := fork_events s @ [fork_prepare, fork_child],
       acceptor_open := False,
       signals := removeAll SIGCHLD (signals s),
       syslog := syslog s @ [(LOG_INFO, ''Forked child [pid:%d]'', [Arg_int p])],
       stopped := True\<rparr>"
  using assms
  by (simp add: server2_on_accept_def fork_def notify_fork_def acceptor_close_def
      signals_remove_def log_def io_service_stop_def Let_def)

lemma server2_spawner:
  assumes "acceptor_open s" and "p \<noteq> 0"
  shows "server2_on_accept 0 (Fork_parent p) s =
     s\<lparr>children := children s @ [(p, Running)],
       fork_events := fork_events s @ [fork_prepare, fork_parent],
       socket_open := False,
       accept_wait := True\<rparr>"
  using assms
  by (simp add: server2_on_accept_def fork_def notify_fork_def socket_close_def
      server2_do_accept_def Let_def)

lemma server_worker:
  "server_on_accept 0 (Fork_child p) s =
     s\<lparr>pid := p, children := [],
       fork_events := fork_events s @ [fork_prepare, fork_child],
       acceptor_open := False,
       syslog := syslog s @ [(LOG_INFO, ''Forked child is done'', [])],
       stopped := True\<rparr>"
  by (simp add: server_on_accept_def fork_def notify_fork_def acceptor_close_def
      log_def io_service_stop_def Let_def)

lemma server_spawner:
  assumes "p \<noteq> 0"
  shows "server_on_accept 0 (Fork_parent p) s =
     s\<lparr>children := children s @ [(p, Running)],
       fork_events := fork_events s @ [fork_prepare, fork_parent],
       socket_open := False,
       accept_wait := True\<rparr>"
  using assms
  by (simp add: server_on_accept_def fork_def notify_fork_def socket_close_def
      server_do_accept_def Let_def)

text \<open>
  A process whose event loop is stopped and that has no children is finished: nothing
  that its event loop is given changes its state.
\<close>

lemma server2_dispatch_finished:
  assumes "stopped s" and "children s = []"
  shows "server2_dispatch ev s = s"
proof (cases ev)
  case (Child_exit p)
  have "s\<lparr>children := []\<rparr> = s" using assms(2) by (cases s) simp
  with Child_exit assms(2) show ?thesis by (simp add: server2_dispatch_def child_exit_def)
qed (use assms in \<open>simp_all add: server2_dispatch_def\<close>)

lemma server2_run_finished:
  assumes "stopped s" and "children s = []"
  shows "server2_run evs s = s"
  using assms by (induction evs) (simp_all add: server2_dispatch_finished)

lemma server_dispatch_finished:
  assumes "stopped s" and "children s = []"
  shows "server_dispatch ev s = s"
proof (cases ev)
  case (Child_exit p)
  have "s\<lparr>children := []\<rparr> = s" using assms(2) by (cases s) simp
  with Child_exit assms(2) show ?thesis by (simp add: server_dispatch_def child_exit_def)
qed (use assms in \<open>simp_all add: server_dispatch_def\<close>)

lemma server_run_finished:
  assumes "stopped s" and "children s = []"
  shows "server_run evs s = s"
  using assms by (induction evs) (simp_all add: server_dispatch_finished)

lemmas example_defs =
  server2_example_def server_example_def server2_init_def server_init_def
  server2_do_accept_def server2_wait_for_signal_def server_do_accept_def
  server_do_signal_wait_def SIGTERM_def SIGINT_def SIGCHLD_def

text \<open>
  C3. When SIGTERM or SIGINT is handled in the parent role of \<open>server2.cpp\<close>, the
  acceptor is closed, the signal wait is not posted again and no child is touched. From
  then on, whatever the event loop is given, the acceptor stays closed, no signal wait
  and no new accept is posted, the handler never forks again (\<open>fork_events\<close> does not
  grow) and the set of children stays the same: none is added, none is reaped, and
  unless the kernel reports the exit of a child the table of children is the one the
  signal found.
\<close>

theorem terminate_closes_acceptor:
  assumes "acceptor_open s" and "\<not> stopped s" and "signal_wait s"
    and "sig \<in> set (signals s)" and "sig = SIGTERM \<or> sig = SIGINT"
  shows "\<not> acceptor_open (server2_dispatch (Signal sig) s) \<and>
         \<not> signal_wait (server2_dispatch (Signal sig) s) \<and>
         children (server2_dispatch (Signal sig) s) = children s \<and>
         (\<forall>evs. \<not> acceptor_open (server2_run evs (server2_dispatch (Signal sig) s)) \<and>
                \<not> signal_wait (server2_run evs (server2_dispatch (Signal sig) s)) \<and>
                (accept_wait (server2_run evs (server2_dispatch (Signal sig) s)) \<longrightarrow>
                   accept_wait s) \<and>
                fork_events (server2_run evs (server2_dispatch (Signal sig) s)) =
                   fork_events s \<and>
                map fst (children (server2_run evs (server2_dispatch (Signal sig) s))) =
                   map fst (children s) \<and>
                ((\<forall>p. Child_exit p \<notin> set evs) \<longrightarrow>
                   children (server2_run evs (server2_dispatch (Signal sig) s)) = children s))"
proof -
  let ?t = "server2_dispatch (Signal sig) s"
  have t: "?t = log LOG_INFO ''Closed acceptor socket'' []
             (acceptor_close (log LOG_INFO ''Caught signal (parent) [pid:%d, signal:%s]''
                [Arg_int (pid s), Arg_str (signal_name sig)] (s\<lparr>signal_wait := False\<rparr>)))"
    using assms
    by (auto simp: server2_dispatch_def server2_on_signal_def Let_def log_def
        SIGTERM_def SIGINT_def SIGCHLD_def)
  have now: "\<not> acceptor_open ?t" "\<not> signal_wait ?t" "children ?t = children s"
    "fork_events ?t = fork_events s" "accept_wait ?t = accept_wait s"
    by (simp_all add: t log_def acceptor_close_def)
  from server2_run_closed [OF now(1)] server2_run_closed_children [OF now(1)] now
  show ?thesis by simp
qed

theorem terminate_closes_acceptor_witness:
  "acceptor_open server2_example \<and>
   \<not> acceptor_open (server2_dispatch (Signal SIGTERM) server2_example) \<and>
   \<not> signal_wait (server2_dispatch (Signal SIGTERM) server2_example) \<and>
   children (server2_dispatch (Signal SIGTERM) server2_example) =
     [(101, Terminated), (102, Running), (103, Terminated)] \<and>
   children (server2_run [Accept 0 (Fork_parent 104), Signal SIGINT, Signal SIGCHLD]
              (server2_dispatch (Signal SIGTERM) server2_example)) =
     [(101, Terminated), (102, Running), (103, Terminated)] \<and>
   fork_events (server2_run [Accept 0 (Fork_parent 104), Signal SIGINT, Signal SIGCHLD]
              (server2_dispatch (Signal SIGTERM) server2_example)) = []"
proof -
  let ?evs = "[Accept 0 (Fork_parent 104), Signal SIGINT, Signal SIGCHLD]"
  let ?d = "server2_dispatch (Signal SIGTERM) server2_example"
  have h: "acceptor_open server2_example" "\<not> stopped server2_example"
    "signal_wait server2_example" "SIGTERM \<in> set (signals server2_example)"
    by (simp_all add: example_defs)
  have c: "children server2_example = [(101, Terminated), (102, Running), (103, Terminated)]"
    "fork_events server2_example = []"
    by (simp_all add: example_defs)
  note T = terminate_closes_acceptor [OF h disjI1 [OF refl]]
  from T have now: "\<not> acceptor_open ?d" "\<not> signal_wait ?d"
    "children ?d = children server2_example"
    by blast+
  have quiet: "\<forall>p. Child_exit p \<notin> set ?evs"
    by simp
  from T have later: "fork_events (server2_run ?evs ?d) = fork_events server2_example"
    by blast
  from T quiet have same: "children (server2_run ?evs ?d) = children server2_example"
    by blast
  from h(1) now later same show ?thesis by (simp only: c) simp
qed

text \<open>
  C4, as stated, fails: the worker runs no message exchange. In both programs the handler
  that runs in the worker closes the acceptor, writes one log line and stops the event
  loop; the accepted connection stays open in \<open>socket_\<close> and is neither read nor
  written, and what arrives afterwards is not handled.
\<close>

theorem worker_exchanges_no_message:
  "server2_dispatch (Accept 0 (Fork_child 104)) server2_example =
     server2_example\<lparr>pid := 104, children := [],
       syslog := [(LOG_INFO, ''Forked child [pid:%d]'', [Arg_int 104])],
       stopped := True, fork_events := [fork_prepare, fork_child],
       signals := [SIGTERM, SIGINT], acceptor_open := False, accept_wait := False,
       socket_open := True\<rparr> \<and>
   server2_run [Signal SIGTERM, Accept 0 (Fork_parent 105), Child_exit 102]
       (server2_dispatch (Accept 0 (Fork_child 104)) server2_example) =
     server2_dispatch (Accept 0 (Fork_child 104)) server2_example \<and>
   server_dispatch (Accept 0 (Fork_child 104)) server_example =
     server_example\<lparr>pid := 104, children := [],
       syslog := [(LOG_INFO, ''Forked child is done'', [])],
       stopped := True, fork_events := [fork_prepare, fork_child],
       acceptor_open := False, accept_wait := False, socket_open := True\<rparr> \<and>
   server_run [Signal SIGTERM, Accept 0 (Fork_parent 105), Child_exit 102]
       (server_dispatch (Accept 0 (Fork_child 104)) server_example) =
     server_dispatch (Accept 0 (Fork_child 104)) server_example"
proof -
  have w2: "server2_dispatch (Accept 0 (Fork_child 104)) server2_example =
     server2_example\<lparr>pid := 104, children := [],
       syslog := [(LOG_INFO, ''Forked child [pid:%d]'', [Arg_int 104])],
       stopped := True, fork_events := [fork_prepare, fork_child],
       signals := [SIGTERM, SIGINT], acceptor_open := False, accept_wait := False,
       socket_open := True\<rparr>"
    by (simp add: example_defs server2_dispatch_def accept_complete_def server2_worker)
  have w1: "server_dispatch (Accept 0 (Fork_child 104)) server_example =
     server_example\<lparr>pid := 104, children := [],
       syslog := [(LOG_INFO, ''Forked child is done'', [])],
       stopped := True, fork_events := [fork_prepare, fork_child],
       acceptor_open := False, accept_wait := False, socket_open := True\<rparr>"
    by (simp add: example_defs server_dispatch_def accept_complete_def server_worker)
  have r2: "server2_run [Signal SIGTERM, Accept 0 (Fork_parent 105), Child_exit 102]
       (server2_dispatch (Accept 0 (Fork_child 104)) server2_example) =
     server2_dispatch (Accept 0 (Fork_child 104)) server2_example"
    by (rule server2_run_finished) (simp_all add: w2)
  have r1: "server_run [Signal SIGTERM, Accept 0 (Fork_parent 105), Child_exit 102]
       (server_dispatch (Accept 0 (Fork_child 104)) server_example) =
     server_dispatch (Accept 0 (Fork_child 104)) server_example"
    by (rule server_run_finished) (simp_all add: w1)
  from w2 r2 w1 r1 show ?thesis by (intro conjI)
qed

text \<open>
  C4, amended. A worker is the process in which the \<open>fork\<close> of the accept handler
  returned 0. In it the acceptor is closed, no accept is posted and the event loop is
  stopped; whatever is given to its event loop afterwards, the acceptor stays closed and
  no accept is ever posted. The worker exchanges no message: its handler adds one line to
  the log, the accepted connection stays open in \<open>socket_\<close>, and nothing that arrives
  afterwards changes the worker's state. In the spawner (\<open>fork\<close> returned the pid \<open>p\<close>
  of the child) the acceptor is still open, the next accept is posted and the loop goes
  on. This holds for \<open>server2.cpp\<close> (state \<open>s\<close>) and for \<open>server.cpp\<close> (state \<open>t\<close>).
\<close>

theorem worker_never_accepts:
  assumes "acceptor_open s" and "\<not> stopped s" and "accept_wait s"
    and "acceptor_open t" and "\<not> stopped t" and "accept_wait t"
    and "0 < p"
  shows "\<not> acceptor_open (server2_dispatch (Accept 0 (Fork_child p)) s) \<and>
         \<not> accept_wait (server2_dispatch (Accept 0 (Fork_child p)) s) \<and>
         stopped (server2_dispatch (Accept 0 (Fork_child p)) s) \<and>
         (\<forall>evs. \<not> acceptor_open (server2_run evs (server2_dispatch (Accept 0 (Fork_child p)) s)) \<and>
                \<not> accept_wait (server2_run evs (server2_dispatch (Accept 0 (Fork_child p)) s))) \<and>
         acceptor_open (server2_dispatch (Accept 0 (Fork_parent p)) s) \<and>
         accept_wait (server2_dispatch (Accept 0 (Fork_parent p)) s) \<and>
         \<not> stopped (server2_dispatch (Accept 0 (Fork_parent p)) s) \<and>
         \<not> acceptor_open (server_dispatch (Accept 0 (Fork_child p)) t) \<and>
         \<not> accept_wait (server_dispatch (Accept 0 (Fork_child p)) t) \<and>
         stopped (server_dispatch (Accept 0 (Fork_child p)) t) \<and>
         (\<forall>evs. \<not> acceptor_open (server_run evs (server_dispatch (Accept 0 (Fork_child p)) t)) \<and>
                \<not> accept_wait (server_run evs (server_dispatch (Accept 0 (Fork_child p)) t))) \<and>
         acceptor_open (server_dispatch (Accept 0 (Fork_parent p)) t) \<and>
         accept_wait (server_dispatch (Accept 0 (Fork_parent p)) t) \<and>
         \<not> stopped (server_dispatch (Accept 0 (Fork_parent p)) t) \<and>
         syslog (server2_dispatch (Accept 0 (Fork_child p)) s) =
           syslog s @ [(LOG_INFO, ''Forked child [pid:%d]'', [Arg_int p])] \<and>
         socket_open (server2_dispatch (Accept 0 (Fork_child p)) s) \<and>
         (\<forall>evs. server2_run evs (server2_dispatch (Accept 0 (Fork_child p)) s) =
                server2_dispatch (Accept 0 (Fork_child p)) s) \<and>
         syslog (server_dispatch (Accept 0 (Fork_child p)) t) =
           syslog t @ [(LOG_INFO, ''Forked child is done'', [])] \<and>
         socket_open (server_dispatch (Accept 0 (Fork_child p)) t) \<and>
         (\<forall>evs. server_run evs (server_dispatch (Accept 0 (Fork_child p)) t) =
                server_dispatch (Accept 0 (Fork_child p)) t)"
proof -
  let ?w2 = "server2_dispatch (Accept 0 (Fork_child p)) s"
  let ?w1 = "server_dispatch (Accept 0 (Fork_child p)) t"
  have w2: "\<not> acceptor_open ?w2" "\<not> accept_wait ?w2" "stopped ?w2"
    using assms by (simp_all add: server2_dispatch_def accept_complete_def server2_worker)
  have w1: "\<not> acceptor_open ?w1" "\<not> accept_wait ?w1" "stopped ?w1"
    using assms by (simp_all add: server_dispatch_def accept_complete_def server_worker)
  have x2: "syslog ?w2 = syslog s @ [(LOG_INFO, ''Forked child [pid:%d]'', [Arg_int p])]"
    "socket_open ?w2" "children ?w2 = []"
    using assms by (simp_all add: server2_dispatch_def accept_complete_def server2_worker)
  have x1: "syslog ?w1 = syslog t @ [(LOG_INFO, ''Forked child is done'', [])]"
    "socket_open ?w1" "children ?w1 = []"
    using assms by (simp_all add: server_dispatch_def accept_complete_def server_worker)
  have p2: "acceptor_open (server2_dispatch (Accept 0 (Fork_parent p)) s)"
    "accept_wait (server2_dispatch (Accept 0 (Fork_parent p)) s)"
    "\<not> stopped (server2_dispatch (Accept 0 (Fork_parent p)) s)"
    using assms by (simp_all add: server2_dispatch_def accept_complete_def server2_spawner)
  have p1: "acceptor_open (server_dispatch (Accept 0 (Fork_parent p)) t)"
    "accept_wait (server_dispatch (Accept 0 (Fork_parent p)) t)"
    "\<not> stopped (server_dispatch (Accept 0 (Fork_parent p)) t)"
    using assms by (simp_all add: server_dispatch_def accept_complete_def server_spawner)
  from server2_run_closed [OF w2(1)] w2(2)
  have r2: "\<forall>evs. \<not> acceptor_open (server2_run evs ?w2) \<and> \<not> accept_wait (server2_run evs ?w2)"
    by blast
  from server_run_idle [OF w1(1) w1(2)]
  have r1: "\<forall>evs. \<not> acceptor_open (server_run evs ?w1) \<and> \<not> accept_wait (server_run evs ?w1)"
    by blast
  have f2: "\<forall>evs. server2_run evs ?w2 = ?w2"
    using server2_run_finished [OF w2(3) x2(3)] by blast
  have f1: "\<forall>evs. server_run evs ?w1 = ?w1"
    using server_run_finished [OF w1(3) x1(3)] by blast
  from w2 w1 p2 p1 r2 r1 x2(1,2) x1(1,2) f2 f1 show ?thesis by (intro conjI)
qed

theorem worker_never_accepts_witness:
  "acceptor_open server2_example \<and> accept_wait server2_example \<and>
   \<not> acceptor_open (server2_dispatch (Accept 0 (Fork_child 104)) server2_example) \<and>
   \<not> accept_wait (server2_dispatch (Accept 0 (Fork_child 104)) server2_example) \<and>
   stopped (server2_dispatch (Accept 0 (Fork_child 104)) server2_example) \<and>
   acceptor_open (server2_dispatch (Accept 0 (Fork_parent 104)) server2_example) \<and>
   accept_wait (server2_dispatch (Accept 0 (Fork_parent 104)) server2_example) \<and>
   acceptor_open server_example \<and> accept_wait server_example \<and>
   \<not> acceptor_open (server_dispatch (Accept 0 (Fork_child 104)) server_example) \<and>
   \<not> accept_wait (server_dispatch (Accept 0 (Fork_child 104)) server_example) \<and>
   stopped (server_dispatch (Accept 0 (Fork_child 104)) server_example) \<and>
   acceptor_open (server_dispatch (Accept 0 (Fork_parent 104)) server_example) \<and>
   accept_wait (server_dispatch (Accept 0 (Fork_parent 104)) server_example) \<and>
   syslog (server2_dispatch (Accept 0 (Fork_child 104)) server2_example) =
     [(LOG_INFO, ''Forked child [pid:%d]'', [Arg_int 104])] \<and>
   socket_open (server2_dispatch (Accept 0 (Fork_child 104)) server2_example) \<and>
   syslog (server_dispatch (Accept 0 (Fork_child 104)) server_example) =
     [(LOG_INFO, ''Forked child is done'', [])] \<and>
   socket_open (server_dispatch (Accept 0 (Fork_child 104)) server_example)"
proof -
  have h: "acceptor_open server2_example" "\<not> stopped server2_example"
    "accept_wait server2_example" "acceptor_open server_example"
    "\<not> stopped server_example" "accept_wait server_example" "(0::int) < 104"
    by (simp_all add: example_defs)
  have c: "syslog server2_example = []" "syslog server_example = []"
    by (simp_all add: example_defs)
  note T = worker_never_accepts [OF h]
  from T have a: "\<not> acceptor_open (server2_dispatch (Accept 0 (Fork_child 104)) server2_example)"
    "\<not> accept_wait (server2_dispatch (Accept 0 (Fork_child 104)) server2_example)"
    "stopped (server2_dispatch (Accept 0 (Fork_child 104)) server2_example)"
    "acceptor_open (server2_dispatch (Accept 0 (Fork_parent 104)) server2_example)"
    "accept_wait (server2_dispatch (Accept 0 (Fork_parent 104)) server2_example)"
    "\<not> acceptor_open (server_dispatch (Accept 0 (Fork_child 104)) server_example)"
    "\<not> accept_wait (server_dispatch (Accept 0 (Fork_child 104)) server_example)"
    "stopped (server_dispatch (Accept 0 (Fork_child 104)) server_example)"
    "acceptor_open (server_dispatch (Accept 0 (Fork_parent 104)) server_example)"
    "accept_wait (server_dispatch (Accept 0 (Fork_parent 104)) server_example)"
    by blast+
  from T have b: "syslog (server2_dispatch (Accept 0 (Fork_child 104)) server2_example) =
      syslog server2_example @ [(LOG_INFO, ''Forked child [pid:%d]'', [Arg_int 104])]"
    "socket_open (server2_dispatch (Accept 0 (Fork_child 104)) server2_example)"
    "syslog (server_dispatch (Accept 0 (Fork_child 104)) server_example) =
      syslog server_example @ [(LOG_INFO, ''Forked child is done'', [])]"
    "socket_open (server_dispatch (Accept 0 (Fork_child 104)) server_example)"
    by blast+
  from h(1,3,4,6) a b show ?thesis by (simp only: c) simp
qed

text \<open>
  C5, as stated, fails on \<open>server.cpp\<close>: its worker closes the acceptor and stops, and
  SIGCHLD is still registered in it.
\<close>

theorem server_worker_keeps_sigchld:
  "SIGCHLD \<in> set (signals (server_dispatch (Accept 0 (Fork_child 104)) server_example))"
  by (simp add: example_defs server_dispatch_def accept_complete_def server_worker)

text \<open>
  C5, amended. In a worker of \<open>server2.cpp\<close> SIGCHLD is removed from the signal set by
  the accept handler that runs first in the worker, before control returns to the event
  loop; SIGCHLD is never registered again there, and a SIGCHLD given to the worker's
  event loop changes nothing. A worker of \<open>server.cpp\<close> (state \<open>t\<close>) keeps the
  parent's registrations, and no signal given to its event loop changes anything.
\<close>

theorem worker_drops_sigchld:
  assumes "acceptor_open s" and "\<not> stopped s" and "accept_wait s"
    and "\<not> stopped t" and "accept_wait t"
  shows "SIGCHLD \<notin> set (signals (server2_dispatch (Accept 0 (Fork_child p)) s)) \<and>
         (\<forall>evs. SIGCHLD \<notin>
            set (signals (server2_run evs (server2_dispatch (Accept 0 (Fork_child p)) s)))) \<and>
         server2_dispatch (Signal SIGCHLD) (server2_dispatch (Accept 0 (Fork_child p)) s) =
           server2_dispatch (Accept 0 (Fork_child p)) s \<and>
         signals (server_dispatch (Accept 0 (Fork_child p)) t) = signals t \<and>
         (\<forall>sig. server_dispatch (Signal sig) (server_dispatch (Accept 0 (Fork_child p)) t) =
            server_dispatch (Accept 0 (Fork_child p)) t)"
proof -
  let ?w2 = "server2_dispatch (Accept 0 (Fork_child p)) s"
  let ?w1 = "server_dispatch (Accept 0 (Fork_child p)) t"
  have w2: "\<not> acceptor_open ?w2" "SIGCHLD \<notin> set (signals ?w2)"
    using assms by (simp_all add: server2_dispatch_def accept_complete_def server2_worker)
  have w1: "stopped ?w1" "signals ?w1 = signals t"
    using assms by (simp_all add: server_dispatch_def accept_complete_def server_worker)
  from server2_run_closed [OF w2(1)] w2(2)
  have "\<forall>evs. SIGCHLD \<notin> set (signals (server2_run evs ?w2))" by simp
  moreover from w2(2) have "server2_dispatch (Signal SIGCHLD) ?w2 = ?w2"
    by (simp add: server2_dispatch_def)
  moreover from w1(1) have "\<forall>sig. server_dispatch (Signal sig) ?w1 = ?w1"
    by (simp add: stopped_server_dispatch)
  ultimately show ?thesis using w2 w1 by blast
qed

theorem worker_drops_sigchld_witness:
  "SIGCHLD \<in> set (signals server2_example) \<and>
   SIGCHLD \<notin> set (signals (server2_dispatch (Accept 0 (Fork_child 104)) server2_example)) \<and>
   server2_dispatch (Signal SIGCHLD)
       (server2_dispatch (Accept 0 (Fork_child 104)) server2_example) =
     server2_dispatch (Accept 0 (Fork_child 104)) server2_example \<and>
   signals (server_dispatch (Accept 0 (Fork_child 104)) server_example) = [SIGCHLD]"
proof -
  have h: "acceptor_open server2_example" "\<not> stopped server2_example"
    "accept_wait server2_example" "\<not> stopped server_example" "accept_wait server_example"
    by (simp_all add: example_defs)
  have c: "SIGCHLD \<in> set (signals server2_example)" "signals server_example = [SIGCHLD]"
    by (simp_all add: example_defs)
  from worker_drops_sigchld [OF h, of 104] c show ?thesis by simp
qed

text \<open>
  C6. Both signal handlers decide on \<open>acceptor_.is_open()\<close> alone. Where the acceptor
  is closed the handler of \<open>server2.cpp\<close> writes one log line and that of \<open>server.cpp\<close>
  does nothing: no child is reaped, nothing is closed and the wait is not posted again;
  and whatever the event loop of such a process is given afterwards, no child of it is
  ever reaped. Where the acceptor is open the handler takes the parent's branch.
\<close>

theorem closed_acceptor_ignores_signals:
  assumes "\<not> acceptor_open s" and "acceptor_open t"
  shows "server2_on_signal sig s =
           log LOG_INFO ''Caught signal (child) [pid:%d]'' [Arg_int (pid s)] s \<and>
         server_on_signal s = s \<and>
         children (server2_on_signal sig s) = children s \<and>
         \<not> acceptor_open (server2_on_signal sig s) \<and>
         signal_wait (server2_on_signal sig s) = signal_wait s \<and>
         (\<forall>evs. map fst (children (server2_run evs s)) = map fst (children s)) \<and>
         syslog (server2_on_signal sig t) ! length (syslog t) =
           (LOG_INFO, ''Caught signal (parent) [pid:%d, signal:%s]'',
            [Arg_int (pid t), Arg_str (signal_name sig)]) \<and>
         syslog (server_on_signal t) = syslog t @ [(LOG_INFO, ''Caught signal: %m'', [])]"
proof -
  have "syslog (server2_on_signal sig t) ! length (syslog t) =
           (LOG_INFO, ''Caught signal (parent) [pid:%d, signal:%s]'',
            [Arg_int (pid t), Arg_str (signal_name sig)])"
    using assms(2)
    by (simp add: server2_on_signal_def log_def acceptor_close_def
        server2_wait_for_signal_def Let_def nth_append)
  moreover have "syslog (server_on_signal t) = syslog t @ [(LOG_INFO, ''Caught signal: %m'', [])]"
    using assms(2) by (simp add: server_on_signal_def log_def server_do_signal_wait_def Let_def)
  ultimately show ?thesis
    using assms(1) server2_run_closed [OF assms(1)]
    by (simp add: server2_on_signal_def server_on_signal_def log_def)
qed

theorem closed_acceptor_ignores_signals_witness:
  "\<not> acceptor_open (acceptor_close server2_example) \<and>
   children (server2_on_signal SIGCHLD (acceptor_close server2_example)) =
     [(101, Terminated), (102, Running), (103, Terminated)] \<and>
   server_on_signal (acceptor_close server2_example) = acceptor_close server2_example \<and>
   syslog (server_on_signal server_example) = [(LOG_INFO, ''Caught signal: %m'', [])]"
proof -
  have h: "\<not> acceptor_open (acceptor_close server2_example)" "acceptor_open server_example"
    by (simp_all add: example_defs acceptor_close_def)
  have c: "children (acceptor_close server2_example) =
      [(101, Terminated), (102, Running), (103, Terminated)]"
    "syslog server_example = []"
    by (simp_all add: example_defs acceptor_close_def)
  note T = closed_acceptor_ignores_signals [OF h, of SIGCHLD]
  from T have "children (server2_on_signal SIGCHLD (acceptor_close server2_example)) =
      children (acceptor_close server2_example)"
    "server_on_signal (acceptor_close server2_example) = acceptor_close server2_example"
    "syslog (server_on_signal server_example) =
      syslog server_example @ [(LOG_INFO, ''Caught signal: %m'', [])]"
    by blast+
  with h(1) show ?thesis by (simp only: c) simp
qed

text \<open>
  C7. An accept that fails while the acceptor is open and the loop runs writes one
  line to the log and posts the next accept: the acceptor stays open, the loop is not
  stopped, and the next connection is given to a new worker, after which the spawner
  accepts again. This holds for \<open>server2.cpp\<close> (state \<open>s\<close>) and \<open>server.cpp\<close>
  (state \<open>t\<close>).
\<close>

theorem accept_error_rearms:
  assumes "acceptor_open s" and "\<not> stopped s" and "accept_wait s"
    and "acceptor_open t" and "\<not> stopped t" and "accept_wait t"
    and "ec \<noteq> 0"
  shows "syslog (server2_dispatch (Accept ec fr) s) =
           syslog s @ [(LOG_ERR, ''Accept error: %m'', [])] \<and>
         accept_wait (server2_dispatch (Accept ec fr) s) \<and>
         acceptor_open (server2_dispatch (Accept ec fr) s) \<and>
         \<not> stopped (server2_dispatch (Accept ec fr) s) \<and>
         children (server2_dispatch (Accept ec fr) s) = children s \<and>
         (\<forall>p. 0 < p \<longrightarrow>
            children (server2_dispatch (Accept 0 (Fork_parent p))
                       (server2_dispatch (Accept ec fr) s)) = children s @ [(p, Running)] \<and>
            accept_wait (server2_dispatch (Accept 0 (Fork_parent p))
                       (server2_dispatch (Accept ec fr) s))) \<and>
         syslog (server_dispatch (Accept ec fr) t) =
           syslog t @ [(LOG_ERR, ''Accept error: %m'', [])] \<and>
         accept_wait (server_dispatch (Accept ec fr) t) \<and>
         acceptor_open (server_dispatch (Accept ec fr) t) \<and>
         \<not> stopped (server_dispatch (Accept ec fr) t) \<and>
         children (server_dispatch (Accept ec fr) t) = children t \<and>
         (\<forall>p. 0 < p \<longrightarrow>
            children (server_dispatch (Accept 0 (Fork_parent p))
                       (server_dispatch (Accept ec fr) t)) = children t @ [(p, Running)] \<and>
            accept_wait (server_dispatch (Accept 0 (Fork_parent p))
                       (server_dispatch (Accept ec fr) t)))"
proof -
  let ?s' = "s\<lparr>syslog := syslog s @ [(LOG_ERR, ''Accept error: %m'', [])]\<rparr>"
  let ?t' = "t\<lparr>syslog := syslog t @ [(LOG_ERR, ''Accept error: %m'', [])]\<rparr>"
  have e2: "server2_dispatch (Accept ec fr) s = ?s'"
    using assms
    by (simp add: server2_dispatch_def accept_complete_def server2_on_accept_def
        server2_do_accept_def log_def)
  have e1: "server_dispatch (Accept ec fr) t = ?t'"
    using assms
    by (simp add: server_dispatch_def accept_complete_def server_on_accept_def
        server_do_accept_def log_def)
  have n2: "children (server2_dispatch (Accept 0 (Fork_parent p)) ?s') =
              children s @ [(p, Running)] \<and>
            accept_wait (server2_dispatch (Accept 0 (Fork_parent p)) ?s')" if "0 < p" for p
    using assms that
    by (simp add: server2_dispatch_def accept_complete_def server2_spawner)
  have n1: "children (server_dispatch (Accept 0 (Fork_parent p)) ?t') =
              children t @ [(p, Running)] \<and>
            accept_wait (server_dispatch (Accept 0 (Fork_parent p)) ?t')" if "0 < p" for p
    using assms that
    by (simp add: server_dispatch_def accept_complete_def server_spawner)
  show ?thesis
    unfolding e1 e2 using assms n1 n2 by simp
qed

theorem accept_error_rearms_witness:
  "syslog (server2_dispatch (Accept 24 Fork_failed) server2_example) =
     [(LOG_ERR, ''Accept error: %m'', [])] \<and>
   accept_wait (server2_dispatch (Accept 24 Fork_failed) server2_example) \<and>
   children (server2_dispatch (Accept 0 (Fork_parent 104))
              (server2_dispatch (Accept 24 Fork_failed) server2_example)) =
     [(101, Terminated), (102, Running), (103, Terminated), (104, Running)] \<and>
   syslog (server_dispatch (Accept 24 Fork_failed) server_example) =
     [(LOG_ERR, ''Accept error: %m'', [])] \<and>
   accept_wait (server_dispatch (Accept 24 Fork_failed) server_example) \<and>
   children (server_dispatch (Accept 0 (Fork_parent 104))
              (server_dispatch (Accept 24 Fork_failed) server_example)) =
     [(101, Terminated), (102, Running), (103, Terminated), (104, Running)]"
proof -
  have h: "acceptor_open server2_example" "\<not> stopped server2_example"
    "accept_wait server2_example" "acceptor_open server_example"
    "\<not> stopped server_example" "accept_wait server_example" "(24::int) \<noteq> 0"
    by (simp_all add: example_defs)
  have c: "syslog server2_example = []" "syslog server_example = []"
    "children server2_example = [(101, Terminated), (102, Running), (103, Terminated)]"
    "children server_example = [(101, Terminated), (102, Running), (103, Terminated)]"
    by (simp_all add: example_defs)
  note T = accept_error_rearms [OF h, of Fork_failed]
  from T have a: "syslog (server2_dispatch (Accept 24 Fork_failed) server2_example) =
      syslog server2_example @ [(LOG_ERR, ''Accept error: %m'', [])]"
    "accept_wait (server2_dispatch (Accept 24 Fork_failed) server2_example)"
    "syslog (server_dispatch (Accept 24 Fork_failed) server_example) =
      syslog server_example @ [(LOG_ERR, ''Accept error: %m'', [])]"
    "accept_wait (server_dispatch (Accept 24 Fork_failed) server_example)"
    by blast+
  from T have b: "children (server2_dispatch (Accept 0 (Fork_parent 104))
              (server2_dispatch (Accept 24 Fork_failed) server2_example)) =
      children server2_example @ [(104, Running)]"
    "children (server_dispatch (Accept 0 (Fork_parent 104))
              (server_dispatch (Accept 24 Fork_failed) server_example)) =
      children server_example @ [(104, Running)]"
    by simp_all
  from a b show ?thesis by (simp only: c) simp
qed

text \<open>
  C10. When the accept handler of \<open>server2.cpp\<close> runs with the acceptor closed, it
  returns the state as it is, whatever the error code and whatever a \<open>fork\<close> would
  have done: the completion of an outstanding accept then only ends that accept, with
  no new child, no fork, no log line and no accept posted.
\<close>

theorem accept_after_close_dropped:
  assumes "\<not> acceptor_open s"
  shows "server2_on_accept ec fr s = s \<and>
         (\<not> stopped s \<and> accept_wait s \<longrightarrow>
            server2_dispatch (Accept ec fr) s = accept_complete ec s \<and>
            \<not> accept_wait (server2_dispatch (Accept ec fr) s) \<and>
            children (server2_dispatch (Accept ec fr) s) = children s \<and>
            fork_events (server2_dispatch (Accept ec fr) s) = fork_events s \<and>
            syslog (server2_dispatch (Accept ec fr) s) = syslog s)"
  using assms
  by (simp add: server2_on_accept_def server2_dispatch_def accept_complete_def)

theorem accept_after_close_dropped_witness:
  "accept_wait (server2_dispatch (Signal SIGTERM) server2_example) \<and>
   server2_on_accept 0 (Fork_parent 104) (server2_dispatch (Signal SIGTERM) server2_example) =
     server2_dispatch (Signal SIGTERM) server2_example \<and>
   \<not> accept_wait (server2_dispatch (Accept 0 (Fork_parent 104))
                    (server2_dispatch (Signal SIGTERM) server2_example)) \<and>
   children (server2_dispatch (Accept 0 (Fork_parent 104))
              (server2_dispatch (Signal SIGTERM) server2_example)) =
     [(101, Terminated), (102, Running), (103, Terminated)] \<and>
   fork_events (server2_dispatch (Accept 0 (Fork_parent 104))
              (server2_dispatch (Signal SIGTERM) server2_example)) = []"
proof -
  let ?d = "server2_dispatch (Signal SIGTERM) server2_example"
  have d: "?d = log LOG_INFO ''Closed acceptor socket'' []
             (acceptor_close (log LOG_INFO ''Caught signal (parent) [pid:%d, signal:%s]''
                [Arg_int 100, Arg_str ''SIGTERM''] (server2_example\<lparr>signal_wait := False\<rparr>)))"
    by (simp add: example_defs server2_dispatch_def server2_on_signal_def signal_name_def
        Let_def)
  have h: "\<not> acceptor_open ?d" "\<not> stopped ?d" "accept_wait ?d"
    "children ?d = [(101, Terminated), (102, Running), (103, Terminated)]"
    "fork_events ?d = []"
    by (simp_all add: d log_def acceptor_close_def) (simp_all add: example_defs)
  from accept_after_close_dropped [OF h(1), of 0 "Fork_parent 104"] h
  show ?thesis by (simp add: accept_complete_def)
qed

section \<open>Properties of start-up\<close>

lemmas main_defs =
  env_ok_def create_pid_file_def show_int_def show_nat.simps stoi_def isspace_def
  isdigit_def decimal_def server2_catch_def server_catch_def usage_def EAGAIN_def EACCES_def

text \<open>
  C1. With a port that \<open>std::stoi\<close> cannot parse, and with a port that cannot be bound,
  both programs report the exception once, to the system log and to standard error, and
  then leave \<open>main\<close> at its end: the exit status is 0, not the nonzero status the claim
  states. Every other fatal start-up path of the same \<open>main\<close> returns 1.
\<close>

theorem bad_port_exits_zero:
  "server2_main ''server'' [''abc''] env_ok =
     \<lparr>status = 0, out = [], err = ''Exception: stoi'',
      logged = [(LOG_ERR, ''Exception: %s'', [Arg_str ''stoi''])]\<rparr> \<and>
   server_main ''server'' [''abc''] env_ok =
     \<lparr>status = 0, out = [], err = ''Exception: stoi'' @ [CHR 0x0A],
      logged = [(LOG_ERR, ''Exception: %s'', [Arg_str ''stoi''])]\<rparr> \<and>
   status (server2_main ''server'' [''80'']
     (env_ok\<lparr>bind_error := (\<lambda>_. Some ''bind: Permission denied'')\<rparr>)) = 0 \<and>
   status (server_main ''server'' [''80'']
     (env_ok\<lparr>bind_error := (\<lambda>_. Some ''bind: Permission denied'')\<rparr>)) = 0"
  by (simp add: server2_main_def server_main_def main_defs)

text \<open>
  C9, as stated, fails: with no argument the usage line goes to standard output, and
  nothing is written to standard error.
\<close>

theorem usage_not_on_stderr:
  "err (server2_main ''server'' [] env_ok) = [] \<and>
   out (server2_main ''server'' [] env_ok) = ''Usage: server <port>'' @ [CHR 0x0A] \<and>
   err (server_main ''server'' [] env_ok) = [] \<and>
   out (server_main ''server'' [] env_ok) = ''Usage: server <port>'' @ [CHR 0x0A]"
  by (simp add: server2_main_def server_main_def usage_def)

text \<open>
  C9, amended. Invoked with any number of arguments other than one, both programs print
  the usage line to standard output, write nothing else, and exit with status 1.
\<close>

theorem wrong_arity_usage:
  assumes "length args \<noteq> 1"
  shows "server2_main argv0 args e =
           \<lparr>status = 1, out = ''Usage: '' @ argv0 @ '' <port>'' @ [CHR 0x0A], err = [],
            logged = []\<rparr> \<and>
         server_main argv0 args e =
           \<lparr>status = 1, out = ''Usage: '' @ argv0 @ '' <port>'' @ [CHR 0x0A], err = [],
            logged = []\<rparr>"
  using assms by (simp add: server2_main_def server_main_def usage_def)

theorem wrong_arity_usage_witness:
  "length [''8080'', ''extra''] = 2 \<and>
   server2_main ''server'' [''8080'', ''extra''] env_ok =
     \<lparr>status = 1, out = ''Usage: server <port>'' @ [CHR 0x0A], err = [], logged = []\<rparr> \<and>
   server_main ''server'' [''8080'', ''extra''] env_ok =
     \<lparr>status = 1, out = ''Usage: server <port>'' @ [CHR 0x0A], err = [], logged = []\<rparr>"
  using wrong_arity_usage [of "[''8080'', ''extra'']" "''server''" env_ok]
  by simp

section \<open>Properties of the wire format\<close>

lemma replicate_numeral: "replicate (numeral k) x = x # replicate (pred_numeral k) x"
  by (simp add: numeral_eq_Suc)

lemma Suc_Suc_0: "Suc (Suc 0) = 2"
  by simp

lemma bind_weak_cong: "m = m' \<Longrightarrow> Option.bind m f = Option.bind m' f"
  by simp

lemmas builder_defs =
  new_builder_def GetSize_def PaddingBytes_def fill_def push_def pop_def TrackMinAlign_def
  Align_def PreAlign_def PushElement_def CreateString_def StartTable_def TrackField_def
  AddElement_def ReferTo_def AddOffset_def write_at_def WriteScalar_def data_at_def
  same_vtable_def EndTable_def Finish_def add_name_def add_minimum_protocol_version_def
  add_api_number_def add_user_def add_proxy_user_def add_payload_def le16_def le32_def
  replicate_numeral Suc_Suc_0

lemmas parser_defs =
  rd16_def rd32_def api_no_of_def field_offset_def get_scalar16_def get_pointer_def
  get_string_def get_optional_string_def parse_user_info_def parse_message_def
  char_of_eq_iff Suc_Suc_0

text \<open>
  The builder is run on the payload of the scenario. The pairs of the \<open>let\<close>s are taken
  apart first, so that each call is evaluated only once its arguments are known.
\<close>

lemma example_builder:
  "client_builder ''/tmp/data.obj'' =
     \<lparr>buf = example_body, buf_size = 112, minalign = 4, field_locs = [], max_voffset = 0,
      vtables = []\<rparr>"
  unfolding client_builder_def case_prod_beta example_body_def
  by (simp add: builder_defs Let_def cong: let_weak_cong)

lemma length_example_body: "length example_body = 112"
  by (simp add: example_body_def)

lemma parse_example:
  "parse_message example_body =
     Some \<lparr>minimum_protocol_version = 430, api_number = data_object_open,
           user = \<lparr>name = ''kory''\<rparr>, proxy_user = \<lparr>name = ''rods''\<rparr>,
           payload = ''/tmp/data.obj''\<rparr>"
  unfolding example_body_def
  by (simp add: parser_defs Let_def cong: let_weak_cong bind_weak_cong option.case_cong_weak)

text \<open>
  C8. For the payload \<open>/tmp/data.obj\<close> the client writes the four bytes of the
  little-endian length 112 followed by the 112 bytes of the buffer, and decoding these
  116 bytes gives the version 430, the operation \<open>data_object_open\<close>, the user \<open>kory\<close>,
  the proxy user \<open>rods\<close> and the payload.
\<close>

theorem client_message_round_trip:
  "client_write ''/tmp/data.obj'' = le32 112 @ buf (client_builder ''/tmp/data.obj'') \<and>
   length (buf (client_builder ''/tmp/data.obj'')) = 112 \<and>
   length (client_write ''/tmp/data.obj'') = 116 \<and>
   rd32 (client_write ''/tmp/data.obj'') 0 = Some 112 \<and>
   decode (client_write ''/tmp/data.obj'') =
     Inr \<lparr>minimum_protocol_version = 430, api_number = data_object_open,
          user = \<lparr>name = ''kory''\<rparr>, proxy_user = \<lparr>name = ''rods''\<rparr>,
          payload = ''/tmp/data.obj''\<rparr>"
proof -
  have w: "client_write ''/tmp/data.obj'' = 112 # 0 # 0 # 0 # example_body"
    by (simp add: client_write_def example_builder GetSize_def le32_def)
  have len: "rd32 (112 # 0 # 0 # 0 # example_body) 0 = Some 112"
    by (simp add: rd32_def)
  have d: "decode (112 # 0 # 0 # 0 # example_body) =
     Inr \<lparr>minimum_protocol_version = 430, api_number = data_object_open,
          user = \<lparr>name = ''kory''\<rparr>, proxy_user = \<lparr>name = ''rods''\<rparr>,
          payload = ''/tmp/data.obj''\<rparr>"
    by (simp add: decode_def len max_body_length_def length_example_body parse_example)
  show ?thesis
    by (simp add: w d len example_builder length_example_body le32_def)
qed

end
